theory Spec2Isabelle
  imports Complex_Main "HOL-Library.Char_ord" "HOL-Library.List_Lexorder" "HOL-Library.Sublist"
    "HOL-Library.Multiset"
begin

section \<open>Coloring-book cover and interior builders\<close>

text \<open>
  A shallow embedding of \<^verbatim>\<open>cover_builder.py\<close> and \<^verbatim>\<open>interior_builder.py\<close>.
  Python floats are modelled as exact rationals (\<^typ>\<open>rat\<close>): a decimal literal such as
  \<^verbatim>\<open>0.002252\<close> is the rational it denotes and \<^verbatim>\<open>*\<close>, \<^verbatim>\<open>+\<close> are exact. Python integers
  are \<^typ>\<open>int\<close>. Every \<^verbatim>\<open>raise\<close> of the source is a value \<open>Inl e\<close> of a sum type.
\<close>

subsection \<open>Errors\<close>

datatype error =
    ValueError
  | KeyError
  | IndexError
  | FileNotFoundError
  | AttributeError
  | SystemExit

subsection \<open>Constants of \<^verbatim>\<open>cover_builder.py\<close>\<close>

definition DPI :: int where
  "DPI = 300"

definition BLEED_IN :: rat where
  "BLEED_IN = 125 / 1000"

definition PAPER_THICKNESS :: "string \<rightharpoonup> rat" where
  "PAPER_THICKNESS = map_of
     [(''white'', 2252 / 1000000),
      (''cream'', 25 / 10000),
      (''color_premium'', 2347 / 1000000),
      (''color_standard'', 2252 / 1000000)]"

text \<open>The dataclass \<^verbatim>\<open>Size\<close>; its fields \<^verbatim>\<open>w\<close> and \<^verbatim>\<open>h\<close> carry a prefix here.\<close>

record Size =
  size_w :: int
  size_h :: int

subsection \<open>Rounding and the inch-to-pixel conversion\<close>

text \<open>
  Python 3's \<^verbatim>\<open>round(x)\<close> with one argument rounds to the nearest integer and sends a
  tie to the even neighbour (\<^verbatim>\<open>round(37.5) == 38\<close>, \<^verbatim>\<open>round(2.5) == 2\<close>).
\<close>

definition py_round :: "rat \<Rightarrow> int" where
  "py_round x =
     (let f = \<lfloor>x\<rfloor>; d = x - of_int f
      in if d < 1 / 2 then f
         else if 1 / 2 < d then f + 1
         else if even f then f else f + 1)"

definition inches_to_px :: "rat \<Rightarrow> int" where
  "inches_to_px inches = py_round (inches * of_int DPI)"

subsection \<open>\<^verbatim>\<open>compute_dimensions\<close>\<close>

text \<open>
  \<^verbatim>\<open>PAPER_THICKNESS[paper]\<close> raises \<^verbatim>\<open>KeyError\<close> for a paper type that is not a key.
  The result is the triple (total canvas size, trim size, spine width), all in pixels.
\<close>

definition compute_dimensions ::
  "rat \<Rightarrow> rat \<Rightarrow> int \<Rightarrow> string \<Rightarrow> error + (Size \<times> Size \<times> int)" where
  "compute_dimensions trim_w_in trim_h_in pages paper =
     (let bleed_px = inches_to_px BLEED_IN;
          trim_w_px = inches_to_px trim_w_in;
          trim_h_px = inches_to_px trim_h_in
      in case PAPER_THICKNESS paper of
           None \<Rightarrow> Inl KeyError
         | Some thickness \<Rightarrow>
             (let spine_in = thickness * of_int pages;
                  spine_px = inches_to_px spine_in;
                  total_w_px = inches_to_px (BLEED_IN * 2 + trim_w_in * 2 + spine_in);
                  total_h_px = inches_to_px (BLEED_IN * 2 + trim_h_in)
              in Inr (\<lparr>size_w = total_w_px, size_h = total_h_px\<rparr>,
                      \<lparr>size_w = trim_w_px, size_h = trim_h_px\<rparr>,
                      spine_px)))"


subsection \<open>Strings and the regular expressions of the source\<close>

text \<open>
  A Python \<^verbatim>\<open>str\<close> is modelled as a \<^typ>\<open>string\<close> whose characters are the code points
  below 256. On these, the class \<^verbatim>\<open>\d\<close> of \<^verbatim>\<open>re\<close> is \<^verbatim>\<open>0\<close>--\<^verbatim>\<open>9\<close>, the class \<^verbatim>\<open>\s\<close> is
  the code points 9--13, 28--32, 133 and 160, and \<^verbatim>\<open>str.lower\<close> adds 32 to the code points
  65--90 and 192--222 (except 215). The anchor \<^verbatim>\<open>$\<close> matches at the end of the string and
  also just before a line feed that ends the string (\<open>re_end\<close>).

  Each regular expression of the source is a matcher that scans from the left and takes
  the longest run at every \<^verbatim>\<open>+\<close> and \<^verbatim>\<open>*\<close>, as the backtracking matcher does first; the
  lemmas \<open>match_trim_sound\<close>, \<open>match_trim_complete\<close> and their siblings show that this
  accepts exactly the regular expression's language. \<open>scan_number\<close> is the group
  \<^verbatim>\<open>(\d+(?:\.\d+)?)\<close>; \<open>py_float\<close> is \<^verbatim>\<open>float\<close> on such a group.
\<close>

definition is_digit :: "char \<Rightarrow> bool" where
  "is_digit c = (c \<in> set ''0123456789'')"

definition is_space :: "char \<Rightarrow> bool" where
  "is_space c = ((of_char c :: nat) \<in> set [9, 10, 11, 12, 13, 28, 29, 30, 31, 32, 133, 160])"

definition is_hex :: "char \<Rightarrow> bool" where
  "is_hex c = (c \<in> set ''0123456789abcdefABCDEF'')"



definition re_end :: "string \<Rightarrow> bool" where
  "re_end s = (s = [] \<or> s = [CHR 0x0A])"

definition digit_value :: "char \<Rightarrow> nat" where
  "digit_value c = of_char c - 48"

definition digits_value :: "string \<Rightarrow> nat" where
  "digits_value ds = foldl (\<lambda>n c. 10 * n + digit_value c) 0 ds"











subsection \<open>Builtins used on strings\<close>

text \<open>
  \<^verbatim>\<open>int(s)\<close> on a string: white space (code points 9--13, 32, 133, 160) is stripped from
  both ends, a sign may follow, then decimal digits, between any two of which one
  underscore may stand. \<open>None\<close> stands for the \<^verbatim>\<open>ValueError\<close> that \<^verbatim>\<open>int\<close> raises.
\<close>

definition int_space :: "char \<Rightarrow> bool" where
  "int_space c = ((of_char c :: nat) \<in> set [9, 10, 11, 12, 13, 32, 133, 160])"

definition strip :: "string \<Rightarrow> string" where
  "strip s = rev (dropWhile int_space (rev (dropWhile int_space s)))"

fun digits_underscores :: "string \<Rightarrow> bool" where
  "digits_underscores [] = False"
| "digits_underscores [c] = is_digit c"
| "digits_underscores (c # d # r) =
     (is_digit c \<and>
      (if d = CHR ''_'' then r \<noteq> [] \<and> digits_underscores r else digits_underscores (d # r)))"

definition py_int :: "string \<Rightarrow> int option" where
  "py_int s =
     (let t = strip s;
          neg = (t \<noteq> [] \<and> hd t = CHR ''-'');
          body = (if t \<noteq> [] \<and> (hd t = CHR ''-'' \<or> hd t = CHR ''+'') then tl t else t)
      in if digits_underscores body
         then Some ((if neg then - 1 else 1)
                    * int (digits_value (filter (\<lambda>c. c \<noteq> CHR ''_'') body)))
         else None)"

text \<open>\<^verbatim>\<open>s.partition(sep)\<close>: split at the first occurrence of a non-empty \<^verbatim>\<open>sep\<close>.\<close>

fun partition_from :: "string \<Rightarrow> string \<Rightarrow> string \<Rightarrow> (string \<times> string \<times> string) option" where
  "partition_from sep pre [] = None"
| "partition_from sep pre (c # cs) =
     (if prefix sep (c # cs) then Some (rev pre, sep, drop (length sep) (c # cs))
      else partition_from sep (c # pre) cs)"

definition partition :: "string \<Rightarrow> string \<Rightarrow> string \<times> string \<times> string" where
  "partition s sep = (case partition_from sep [] s of None \<Rightarrow> (s, [], []) | Some r \<Rightarrow> r)"

text \<open>The regular expression \<^verbatim>\<open>^#?[0-9a-fA-F]{6}$\<close> of the background colour.\<close>

definition match_hex_color :: "string \<Rightarrow> bool" where
  "match_hex_color bg =
     (let r = (case bg of [] \<Rightarrow> [] | c # t \<Rightarrow> if c = CHR ''#'' then t else bg)
      in 6 \<le> length r \<and> list_all is_hex (take 6 r) \<and> re_end (drop 6 r))"

subsection \<open>File names of interior pages\<close>

text \<open>
  \<^verbatim>\<open>images_dir.glob("fbnp_*.png")\<close> keeps the names that start with \<^verbatim>\<open>fbnp_\<close> and, after
  it, end with \<^verbatim>\<open>.png\<close>. \<open>match_fbnp\<close> is the regular expression \<^verbatim>\<open>fbnp_(\d+)\.png\<close> matched
  at the start of a string: it yields the digits of the group and what follows the
  match. \<open>re_search\<close> tries a matcher at every position from the left, as \<^verbatim>\<open>re.search\<close> does.
\<close>

definition glob_fbnp :: "string \<Rightarrow> bool" where
  "glob_fbnp name = (prefix ''fbnp_'' name \<and> suffix ''.png'' (drop 5 name))"

definition match_fbnp :: "string \<Rightarrow> (string \<times> string) option" where
  "match_fbnp s =
     (if prefix ''fbnp_'' s
      then (let r = drop 5 s; d = takeWhile is_digit r; r2 = dropWhile is_digit r
            in if d \<noteq> [] \<and> prefix ''.png'' r2 then Some (d, drop 4 r2) else None)
      else None)"

fun re_search :: "(string \<Rightarrow> 'a option) \<Rightarrow> string \<Rightarrow> 'a option" where
  "re_search m [] = m []"
| "re_search m (c # cs) = (case m (c # cs) of Some r \<Rightarrow> Some r | None \<Rightarrow> re_search m cs)"

text \<open>\<^verbatim>\<open>re.search(r"fbnp_(\d+)\.png$", name)\<close> of the cover builder, then \<^verbatim>\<open>int(m.group(1))\<close>.\<close>

definition cover_index :: "string \<Rightarrow> nat option" where
  "cover_index name =
     map_option digits_value
       (re_search (\<lambda>s. case match_fbnp s of
                          Some (d, rest) \<Rightarrow> if re_end rest then Some d else None
                        | None \<Rightarrow> None) name)"

text \<open>\<^verbatim>\<open>re.search(r"fbnp_(\d+)\.png", name)\<close> of the interior builder (no anchor).\<close>

definition interior_index :: "string \<Rightarrow> nat option" where
  "interior_index name = map_option (digits_value \<circ> fst) (re_search match_fbnp name)"


subsection \<open>The pseudo-random generator\<close>

text \<open>
  The module \<^verbatim>\<open>random\<close> of the standard library is a parameter: a generator \<open>G\<close> over a
  state type \<open>'g\<close> gives \<^verbatim>\<open>random.seed\<close>, the internal \<^verbatim>\<open>_randbelow(n)\<close> (an integer in
  \<^verbatim>\<open>range(n)\<close>) and \<^verbatim>\<open>random.random()\<close> (a number in \<open>[0, 1)\<close>). The state of the
  process-wide generator is passed explicitly. \<open>randbelow\<close> and \<open>py_random\<close> reduce what the
  parameter returns into the promised range, so that the contract of the library
  holds for every \<open>G\<close>. \<open>shuffle\<close>, \<open>randint\<close> and \<open>uniform\<close> follow the library's Python
  source.
\<close>

record 'g prng =
  prng_seed :: "int \<Rightarrow> 'g"
  prng_randbelow :: "nat \<Rightarrow> 'g \<Rightarrow> nat \<times> 'g"
  prng_random :: "'g \<Rightarrow> rat \<times> 'g"

definition randbelow :: "'g prng \<Rightarrow> nat \<Rightarrow> 'g \<Rightarrow> nat \<times> 'g" where
  "randbelow G n g = (let (r, g') = prng_randbelow G n g in (r mod n, g'))"

definition py_random :: "'g prng \<Rightarrow> 'g \<Rightarrow> rat \<times> 'g" where
  "py_random G g = (let (r, g') = prng_random G g in (r - of_int \<lfloor>r\<rfloor>, g'))"

text \<open>
  \<^verbatim>\<open>for i in reversed(range(1, len(x))): j = randbelow(i + 1); x[i], x[j] = x[j], x[i]\<close>
\<close>

fun shuffle_from :: "'g prng \<Rightarrow> nat \<Rightarrow> 'a list \<Rightarrow> 'g \<Rightarrow> 'a list \<times> 'g" where
  "shuffle_from G 0 x g = (x, g)"
| "shuffle_from G (Suc i) x g =
     (let (j, g') = randbelow G (Suc i + 1) g
      in shuffle_from G i (x[Suc i := x ! j, j := x ! Suc i]) g')"

definition shuffle :: "'g prng \<Rightarrow> 'a list \<Rightarrow> 'g \<Rightarrow> 'a list \<times> 'g" where
  "shuffle G x g = shuffle_from G (length x - 1) x g"

text \<open>\<^verbatim>\<open>randint(a, b)\<close> is \<^verbatim>\<open>randrange(a, b + 1)\<close>, which raises on an empty range.\<close>

definition randint :: "'g prng \<Rightarrow> int \<Rightarrow> int \<Rightarrow> 'g \<Rightarrow> error + (int \<times> 'g)" where
  "randint G a b g =
     (let width = b + 1 - a
      in if 0 < width
         then (let (r, g') = randbelow G (nat width) g in Inr (a + int r, g'))
         else Inl ValueError)"

definition uniform :: "'g prng \<Rightarrow> rat \<Rightarrow> rat \<Rightarrow> 'g \<Rightarrow> rat \<times> 'g" where
  "uniform G a b g = (let (r, g') = py_random G g in (a + (b - a) * r, g'))"

subsection \<open>The environment: file system and imaging library\<close>

text \<open>
  \<open>listdir E d\<close> are the names of the entries of directory \<open>d\<close>, in the order in which the
  operating system lists them; \<open>path_exists E p\<close> is \<^verbatim>\<open>Path(p).exists()\<close>. A path inside
  the title's directory is identified with its file name. Reading an image file is
  assumed to succeed.

  The imaging library (Pillow) is not part of the repository. Its calls are recorded,
  not interpreted: an \<open>image\<close> is the expression of library calls that made it, and a
  \<open>canvas\<close> carries the list of the drawing calls applied to it, in order. The one thing
  the program's control flow needs from the library is which attributes its image
  objects have (\<open>image_attrs\<close>): a call of a method that is not among them raises
  \<^verbatim>\<open>AttributeError\<close>.
\<close>

record env =
  listdir :: "string \<Rightarrow> string list"
  path_exists :: "string \<Rightarrow> bool"

record imaging =
  image_attrs :: "string list"

text \<open>
  The methods of \<^verbatim>\<open>PIL.Image.Image\<close> as documented by Pillow (10.x). There is a
  \<^verbatim>\<open>getchannel\<close> and a \<^verbatim>\<open>putalpha\<close>, and no \<^verbatim>\<open>putchannel\<close>.
\<close>

definition Pillow :: imaging where
  "Pillow = \<lparr>image_attrs =
     [''alpha_composite'', ''apply_transparency'', ''close'', ''convert'', ''copy'', ''crop'',
      ''draft'', ''effect_spread'', ''entropy'', ''filter'', ''frombytes'', ''getbands'',
      ''getbbox'', ''getchannel'', ''getcolors'', ''getdata'', ''getexif'', ''getextrema'',
      ''getpalette'', ''getpixel'', ''getprojection'', ''histogram'', ''load'', ''paste'',
      ''point'', ''putalpha'', ''putdata'', ''putpalette'', ''putpixel'', ''quantize'',
      ''reduce'', ''remap_palette'', ''resize'', ''rotate'', ''save'', ''seek'', ''show'',
      ''split'', ''tell'', ''thumbnail'', ''tobitmap'', ''tobytes'', ''transform'',
      ''transpose'', ''verify'',
      ''filename'', ''format'', ''mode'', ''size'', ''width'', ''height'', ''palette'',
      ''info'', ''is_animated'', ''n_frames'', ''has_transparency_data'']\<rparr>"

datatype color = Named string | RGBA nat nat nat nat

datatype image =
    Open string
  | Copy image
  | Convert string image
  | Autocontrast image
  | PutChannel nat image

type_synonym box = "int \<times> int \<times> int \<times> int"

text \<open>
  A tilted sheet: the inner art, the layout box of the white paper, the size the art is
  fitted into, and the angle of rotation in degrees.
\<close>

datatype sheet = Sheet (sheet_art: image) (sheet_box: box) (sheet_fit: "int \<times> int") (sheet_angle: rat)

datatype draw_op =
    Rectangle "int \<times> int" "int \<times> int" color
  | Paste color
  | PasteMasked color int
  | AlphaCompositeShadow sheet
  | AlphaCompositePaper sheet
  | TitleText string
  | SpineText string int
  | DescriptionCard string
  | DescriptionText string

text \<open>
  \<^verbatim>\<open>Image.new(mode, size, (255, 255, 255, 255))\<close> is a canvas with no drawing call yet.
  \<^verbatim>\<open>convert\<close> returns a converted copy and leaves its argument as it was; every other
  call mutates the canvas it is applied to, which the model returns.
\<close>

record canvas =
  canvas_mode :: string
  canvas_size :: "int \<times> int"
  canvas_ops :: "draw_op list"

definition new_canvas :: "string \<Rightarrow> int \<times> int \<Rightarrow> canvas" where
  "new_canvas m sz = \<lparr>canvas_mode = m, canvas_size = sz, canvas_ops = []\<rparr>"

definition convert :: "string \<Rightarrow> canvas \<Rightarrow> canvas" where
  "convert m c = c\<lparr>canvas_mode := m\<rparr>"

definition draw :: "draw_op \<Rightarrow> canvas \<Rightarrow> canvas" where
  "draw op c = c\<lparr>canvas_ops := canvas_ops c @ [op]\<rparr>"

subsection \<open>\<^verbatim>\<open>cover_builder.py\<close>: helpers\<close>

definition PASTEL_PALETTES :: "(string \<times> string) list" where
  "PASTEL_PALETTES =
     [(''#FDF2F8'', ''#DBEAFE''),
      (''#FDE68A'', ''#A7F3D0''),
      (''#E9D5FF'', ''#BFDBFE''),
      (''#FFE4E6'', ''#FEF9C3''),
      (''#E0F2FE'', ''#DCFCE7'')]"

definition DEFAULT_TITLE_FONTS :: "string list" where
  "DEFAULT_TITLE_FONTS =
     [''fonts/Baloo2-SemiBold.ttf'', ''fonts/Fredoka-SemiBold.ttf'', ''fonts/ComicNeue-Bold.ttf'',
      ''/usr/share/fonts/truetype/dejavu/DejaVuSans-Bold.ttf'']"

definition pick_first_existing_font :: "env \<Rightarrow> string list \<Rightarrow> string option" where
  "pick_first_existing_font E candidates = find (path_exists E) candidates"

text \<open>
  \<^verbatim>\<open>draw_gradient\<close> pastes the top colour over its argument and then the bottom colour
  through a mask whose row \<open>y\<close> has the value \<^verbatim>\<open>int(255 * (y / max(1, height - 1)))\<close>.
\<close>

definition draw_gradient :: "canvas \<Rightarrow> string \<Rightarrow> string \<Rightarrow> canvas" where
  "draw_gradient bg top_hex bottom_hex =
     draw (PasteMasked (Named bottom_hex) (snd (canvas_size bg))) (draw (Paste (Named top_hex)) bg)"

text \<open>\<^verbatim>\<open>int(x)\<close> on a float truncates towards zero.\<close>

definition py_trunc :: "rat \<Rightarrow> int" where
  "py_trunc x = (if 0 \<le> x then \<lfloor>x\<rfloor> else \<lceil>x\<rceil>)"

definition load_interior_images ::
  "'g prng \<Rightarrow> env \<Rightarrow> string \<Rightarrow> int \<Rightarrow> 'g \<Rightarrow> error + (string list \<times> 'g)" where
  "load_interior_images G E images_dir max_images g =
     (let candidates =
            concat (map (\<lambda>p. case cover_index p of Some n \<Rightarrow> [(n, p)] | None \<Rightarrow> [])
                        (sort (filter glob_fbnp (listdir E images_dir))));
          candidates = sort_key fst candidates;
          files = map snd candidates
      in if files = [] then Inl FileNotFoundError
         else (let k = max 2 (min max_images (int (length files)));
                   head = take (min 6 (length files)) files;
                   (head, g') = shuffle G head g
               in Inr (take (nat k) head, g')))"

definition place_tilted_sheet :: "canvas \<Rightarrow> image \<Rightarrow> box \<Rightarrow> rat \<Rightarrow> canvas" where
  "place_tilted_sheet base sheet box angle_deg =
     (let border_px = 12;
          (x0, y0, x1, y1) = box;
          w = x1 - x0;
          h = y1 - y0;
          inner = Convert ''RGBA'' (Convert ''L'' (Copy sheet));
          pad = max 8 ((min w h) div 20);
          inner_w = w - 2 * (border_px + pad);
          inner_h = h - 2 * (border_px + pad)
      in if inner_w \<le> 0 \<or> inner_h \<le> 0 then base
         else (let paper = Sheet inner box (inner_w, inner_h) angle_deg
               in draw (AlphaCompositePaper paper) (draw (AlphaCompositeShadow paper) base)))"


subsection \<open>\<^verbatim>\<open>build_cover\<close>\<close>

text \<open>
  Lines 261--276. The index of the palette is \<^verbatim>\<open>max(0, min(4, int(variant)))\<close>, and 0 when
  \<^verbatim>\<open>int\<close> raises. The gradient is drawn on \<^verbatim>\<open>base.convert("RGB")\<close>, a converted copy that
  no variable holds; \<^verbatim>\<open>base\<close> is then replaced by \<^verbatim>\<open>base.convert("RGBA")\<close>.
\<close>

definition palette_index :: "string \<Rightarrow> int" where
  "palette_index variant =
     (case py_int variant of
        None \<Rightarrow> 0
      | Some v \<Rightarrow> max 0 (min (int (length PASTEL_PALETTES) - 1) v))"

definition fill_background :: "string \<Rightarrow> int \<times> int \<Rightarrow> canvas \<Rightarrow> canvas" where
  "fill_background bg total_size base =
     (if prefix ''gradient:pastel'' bg
      then (let (_, _, variant) = partition bg '':pastel:'';
                idx = palette_index variant;
                (top, bottom) = PASTEL_PALETTES ! nat idx;
                painted = draw_gradient (convert ''RGB'' base) top bottom
            in convert ''RGBA'' base)
      else if match_hex_color bg
      then (let color = (if prefix ''#'' bg then bg else ''#'' @ bg)
            in draw (Rectangle (0, 0) total_size (Named (color @ ''ff''))) base)
      else draw (Rectangle (0, 0) total_size (Named ''#E0F2FEff'')) base)"

text \<open>The nested function \<^verbatim>\<open>random_boxes\<close>; \<^verbatim>\<open>total.h\<close> and \<^verbatim>\<open>bleed_px\<close> are its free variables.\<close>

fun boxes_loop ::
  "'g prng \<Rightarrow> int \<Rightarrow> int \<Rightarrow> int \<Rightarrow> int \<Rightarrow> (nat \<times> nat) list \<Rightarrow> box list \<Rightarrow> 'g
     \<Rightarrow> error + (box list \<times> 'g)" where
  "boxes_loop G panel_x0 bleed_px cell_w cell_h [] boxes g = Inr (boxes, g)"
| "boxes_loop G panel_x0 bleed_px cell_w cell_h ((r, c) # cells) boxes g =
     (case randint G ((- cell_w) div 10) (cell_w div 10) g of
        Inl e \<Rightarrow> Inl e
      | Inr (jx, g1) \<Rightarrow>
          (case randint G ((- cell_h) div 10) (cell_h div 10) g1 of
             Inl e \<Rightarrow> Inl e
           | Inr (jy, g2) \<Rightarrow>
               (let x0 = panel_x0 + int c * cell_w + jx;
                    y0 = bleed_px + int r * cell_h + jy;
                    w = py_trunc (of_int cell_w * (8 / 10));
                    h = py_trunc (of_int cell_h * (8 / 10))
                in boxes_loop G panel_x0 bleed_px cell_w cell_h cells
                     (boxes @ [(x0, y0, x0 + w, y0 + h)]) g2)))"

definition random_boxes ::
  "'g prng \<Rightarrow> int \<Rightarrow> int \<Rightarrow> int \<Rightarrow> int \<Rightarrow> 'g \<Rightarrow> error + (box list \<times> 'g)" where
  "random_boxes G total_h bleed_px panel_x0 panel_x1 g =
     (let rows = 2; cols = 3;
          panel_w = panel_x1 - panel_x0;
          panel_h = total_h;
          cell_w = panel_w div int cols;
          cell_h = panel_h div int rows
      in case boxes_loop G panel_x0 bleed_px cell_w cell_h
                [(r, c). r \<leftarrow> [0..<rows], c \<leftarrow> [0..<cols]] [] g of
           Inl e \<Rightarrow> Inl e
         | Inr (boxes, g') \<Rightarrow> Inr (shuffle G boxes g'))"

text \<open>
  Lines 321--324: \<^verbatim>\<open>autocontrast\<close>, \<^verbatim>\<open>convert("RGBA")\<close>, then for \<open>j = 0, 1, 2\<close> the call
  \<^verbatim>\<open>art.putchannel(j, art.split()[3])\<close>.
\<close>

definition recolor :: "imaging \<Rightarrow> image \<Rightarrow> error + image" where
  "recolor lib img =
     (let art = Convert ''RGBA'' (Autocontrast img)
      in if ''putchannel'' \<in> set (image_attrs lib)
         then Inr (PutChannel 2 (PutChannel 1 (PutChannel 0 art)))
         else Inl AttributeError)"

text \<open>
  The loop of lines 313--326 over the opened images, \<open>i\<close> counting from 0.
  \<^verbatim>\<open>target_boxes.pop()\<close> takes the last box of the list it aliases and raises
  \<^verbatim>\<open>IndexError\<close> on an empty list.
\<close>

fun place_sheets ::
  "imaging \<Rightarrow> 'g prng \<Rightarrow> nat \<Rightarrow> string list \<Rightarrow> box list \<Rightarrow> box list \<Rightarrow> canvas \<Rightarrow> box list \<Rightarrow> 'g
     \<Rightarrow> error + (canvas \<times> box list \<times> 'g)" where
  "place_sheets lib G i [] front_boxes back_boxes base all_boxes g = Inr (base, all_boxes, g)"
| "place_sheets lib G i (p # ps) front_boxes back_boxes base all_boxes g =
     (let (angle, g') = uniform G (- 15) 15 g;
          use_front = (i mod 2 = 0 \<or> back_boxes = []);
          target_boxes = (if use_front then front_boxes else back_boxes)
      in if target_boxes = [] then Inl IndexError
         else (let box = last target_boxes;
                   front_boxes' = (if use_front then butlast front_boxes else front_boxes);
                   back_boxes' = (if use_front then back_boxes else butlast back_boxes)
               in case recolor lib (Convert ''L'' (Open p)) of
                    Inl e \<Rightarrow> Inl e
                  | Inr art \<Rightarrow>
                      place_sheets lib G (Suc i) ps front_boxes' back_boxes'
                        (place_tilted_sheet base art box angle) (all_boxes @ [box]) g'))"

text \<open>The guard of line 360; a \<^verbatim>\<open>None\<close> or empty spine title is falsy.\<close>

definition spine_text_wanted :: "string option \<Rightarrow> int \<Rightarrow> int \<Rightarrow> bool" where
  "spine_text_wanted spine_title pages spine_px =
     ((case spine_title of None \<Rightarrow> False | Some t \<Rightarrow> t \<noteq> []) \<and> 79 \<le> pages \<and> 0 < spine_px)"

record cover =
  cover_pdf :: string
  cover_image :: canvas

text \<open>
  Lines 328--410 of \<^verbatim>\<open>build_cover\<close>: the title (fatal when no title font exists), the
  spine text, the description with its card, and the white rectangle kept for the
  barcode. Sizes and positions of the texts come from the library's font metrics and are
  not recorded; the spine font size and the barcode rectangle are computed as in the
  source.
\<close>

definition draw_texts ::
  "env \<Rightarrow> canvas \<Rightarrow> string \<Rightarrow> string \<Rightarrow> int \<Rightarrow> string option \<Rightarrow> int \<Rightarrow> int \<Rightarrow> int \<Rightarrow> int \<Rightarrow> int
     \<Rightarrow> error + canvas" where
  "draw_texts E base book_title description pages spine_title spine_px total_h bleed_px
      left_x0 left_x1 =
     (case pick_first_existing_font E DEFAULT_TITLE_FONTS of
        None \<Rightarrow> Inl FileNotFoundError
      | Some title_font_path \<Rightarrow>
          (let base = draw (TitleText book_title) base;
               base = (if spine_text_wanted spine_title pages spine_px
                       then (let spine_font_size =
                                   max 24 (min 80 (spine_px - inches_to_px (125 / 1000)))
                             in case spine_title of
                                  None \<Rightarrow> base
                                | Some t \<Rightarrow> draw (SpineText t spine_font_size) base)
                       else base);
               base = draw (DescriptionCard description) base;
               base = draw (DescriptionText description) base;
               barcode_w = inches_to_px 2;
               barcode_h = inches_to_px (12 / 10);
               barcode_x = left_x1 - barcode_w - inches_to_px (25 / 100);
               barcode_y = total_h - bleed_px - barcode_h - inches_to_px (25 / 100);
               barcode_x = max (left_x0 + inches_to_px (25 / 100)) barcode_x;
               barcode_y = min (total_h - bleed_px - barcode_h - inches_to_px (1 / 10)) barcode_y
           in Inr (draw (Rectangle (barcode_x, barcode_y)
                           (barcode_x + barcode_w, barcode_y + barcode_h)
                           (RGBA 255 255 255 255)) base)))"

text \<open>
  \<^verbatim>\<open>build_cover\<close>. The generator state \<open>g0\<close> is that of the process when the function is
  called; a seed replaces it. The result is the path of the PDF together with the
  flattened canvas that is saved.
\<close>

definition build_cover ::
  "imaging \<Rightarrow> 'g prng \<Rightarrow> env \<Rightarrow> string \<Rightarrow> string \<Rightarrow> string \<Rightarrow> int \<Rightarrow> string \<Rightarrow> rat \<times> rat \<Rightarrow> int
     \<Rightarrow> string option \<Rightarrow> string \<Rightarrow> int option \<Rightarrow> 'g \<Rightarrow> error + (cover \<times> 'g)" where
  "build_cover lib G E safe_title book_title description pages paper trim max_images
      spine_title bg seed g0 =
     (let g = (case seed of None \<Rightarrow> g0 | Some s \<Rightarrow> prng_seed G s);
          images_dir = ''/mnt/ai_data/ColoringBooks/'' @ safe_title;
          out_pdf = images_dir @ ''/fbnp_cover.pdf''
      in case compute_dimensions (fst trim) (snd trim) pages paper of
           Inl e \<Rightarrow> Inl e
         | Inr (total_px, trim_px, spine_px) \<Rightarrow>
      (let base = new_canvas ''RGBA'' (size_w total_px, size_h total_px);
           base = fill_background bg (size_w total_px, size_h total_px) base;
           bleed_px = inches_to_px BLEED_IN;
           left_x0 = 0 + bleed_px;
           left_x1 = left_x0 + size_w trim_px;
           spine_x0 = left_x1;
           spine_x1 = spine_x0 + spine_px;
           right_x0 = spine_x1;
           right_x1 = right_x0 + size_w trim_px
       in case load_interior_images G E images_dir max_images g of
            Inl e \<Rightarrow> Inl e
          | Inr (interior_files, g) \<Rightarrow>
       (case random_boxes G (size_h total_px) bleed_px right_x0 right_x1 g of
            Inl e \<Rightarrow> Inl e
          | Inr (front_boxes, g) \<Rightarrow>
       (case random_boxes G (size_h total_px) bleed_px left_x0 left_x1 g of
            Inl e \<Rightarrow> Inl e
          | Inr (back_boxes, g) \<Rightarrow>
       (case place_sheets lib G 0 interior_files front_boxes back_boxes base [] g of
            Inl e \<Rightarrow> Inl e
          | Inr (base, all_boxes, g) \<Rightarrow>
       (case draw_texts E base book_title description pages spine_title spine_px
               (size_h total_px) bleed_px left_x0 left_x1 of
            Inl e \<Rightarrow> Inl e
          | Inr base \<Rightarrow>
              Inr (\<lparr>cover_pdf = out_pdf, cover_image = convert ''RGB'' base\<rparr>, g)))))))"



subsection \<open>\<^verbatim>\<open>interior_builder.py\<close>\<close>

definition DEFAULT_FONTS :: "string list" where
  "DEFAULT_FONTS =
     [''fonts/ComicNeue-Bold.ttf'', ''/usr/share/fonts/truetype/dejavu/DejaVuSans-Bold.ttf'']"

definition interior_pick_first_existing_font :: "env \<Rightarrow> string list \<Rightarrow> error + string" where
  "interior_pick_first_existing_font E candidates =
     (case find (path_exists E) candidates of
        None \<Rightarrow> Inl FileNotFoundError
      | Some f \<Rightarrow> Inr f)"

definition interior_inches_to_px :: "rat \<Rightarrow> int \<Rightarrow> int" where
  "interior_inches_to_px inches dpi = py_round (inches * of_int dpi)"

text \<open>
  A page of the interior: its pixel size and what is drawn on it. The placement of the
  text and the scaling of the art depend on the library's font metrics and on the size
  of the image file, and are not part of the model.
\<close>

datatype page =
    BelongsTo "int \<times> int"
  | Copyright "int \<times> int"
  | Coloring "int \<times> int" string

definition new_blank_page :: "rat \<Rightarrow> rat \<Rightarrow> int \<Rightarrow> int \<times> int" where
  "new_blank_page trim_w_in trim_h_in dpi =
     (interior_inches_to_px trim_w_in dpi, interior_inches_to_px trim_h_in dpi)"

definition add_front_matter :: "page list \<Rightarrow> env \<Rightarrow> rat \<Rightarrow> rat \<Rightarrow> int \<Rightarrow> error + page list" where
  "add_front_matter pages E trim_w_in trim_h_in dpi =
     (case interior_pick_first_existing_font E DEFAULT_FONTS of
        Inl e \<Rightarrow> Inl e
      | Inr font_path \<Rightarrow>
          (let p1 = BelongsTo (new_blank_page trim_w_in trim_h_in dpi);
               pages = pages @ [p1];
               p2 = Copyright (new_blank_page trim_w_in trim_h_in dpi);
               pages = pages @ [p2]
           in Inr pages))"

text \<open>
  Line 90: \<^verbatim>\<open>sorted(images_dir.glob("fbnp_*.png"), key=lambda p: int(re.search(...).group(1)))\<close>.
  \<^verbatim>\<open>sorted\<close> calls the key on every element; where \<^verbatim>\<open>re.search\<close> returns \<^verbatim>\<open>None\<close>, the
  attribute \<^verbatim>\<open>group\<close> does not exist and the key raises \<^verbatim>\<open>AttributeError\<close>. The sort is
  stable, as \<open>sort_key\<close> is.
\<close>

definition add_coloring_pages ::
  "page list \<Rightarrow> env \<Rightarrow> string \<Rightarrow> rat \<Rightarrow> rat \<Rightarrow> int \<Rightarrow> rat \<Rightarrow> error + page list" where
  "add_coloring_pages pages E images_dir trim_w_in trim_h_in dpi margin_in =
     (let globbed = filter glob_fbnp (listdir E images_dir)
      in if list_ex (\<lambda>p. interior_index p = None) globbed then Inl AttributeError
         else (let files = sort_key (\<lambda>p. case interior_index p of Some n \<Rightarrow> n | None \<Rightarrow> 0) globbed
               in if files = [] then Inl FileNotFoundError
                  else Inr (pages @ map (Coloring (new_blank_page trim_w_in trim_h_in dpi)) files)))"

record interior =
  interior_pdf :: string
  interior_pages :: "page list"

definition build_interior :: "env \<Rightarrow> string \<Rightarrow> rat \<times> rat \<Rightarrow> int \<Rightarrow> rat \<Rightarrow> bool \<Rightarrow> error + interior" where
  "build_interior E safe_title trim dpi margin_in no_bleed =
     (let images_dir = ''/mnt/ai_data/ColoringBooks/'' @ safe_title;
          out_pdf = images_dir @ ''/fbnp_interior.pdf''
      in case add_front_matter [] E (fst trim) (snd trim) dpi of
           Inl e \<Rightarrow> Inl e
         | Inr pages \<Rightarrow>
             (case add_coloring_pages pages E images_dir (fst trim) (snd trim) dpi margin_in of
                Inl e \<Rightarrow> Inl e
              | Inr pages \<Rightarrow>
                  (case pages of
                     [] \<Rightarrow> Inl IndexError
                   | first # rest \<Rightarrow>
                       Inr \<lparr>interior_pdf = out_pdf, interior_pages = first # rest\<rparr>)))"


subsection \<open>Notions used in the statements\<close>



text \<open>
  The files that \<^verbatim>\<open>load_interior_images\<close> discovers: the entries that pass the glob and in
  which the regular expression is found.
\<close>

definition interior_candidates :: "env \<Rightarrow> string \<Rightarrow> string list" where
  "interior_candidates E images_dir =
     filter (\<lambda>p. glob_fbnp p \<and> cover_index p \<noteq> None) (listdir E images_dir)"

text \<open>The drawing calls that render spine text.\<close>

definition is_spine_text :: "draw_op \<Rightarrow> bool" where
  "is_spine_text op = (case op of SpineText t n \<Rightarrow> True | _ \<Rightarrow> False)"

subsection \<open>Examples\<close>

text \<open>A small generator, and the title directory of the usage example.\<close>

definition lcg :: "nat prng" where
  "lcg = \<lparr>prng_seed = (\<lambda>s. nat \<bar>s\<bar> mod 101),
          prng_randbelow = (\<lambda>n g. ((37 * g + 11) mod 101, (37 * g + 11) mod 101)),
          prng_random = (\<lambda>g. (of_nat ((37 * g + 11) mod 101) / 101, (37 * g + 11) mod 101))\<rparr>"

definition dinos :: env where
  "dinos = \<lparr>listdir = (\<lambda>d. if d = ''/mnt/ai_data/ColoringBooks/Cute_Dinosaurs''
                            then [''fbnp_2.png'', ''fbnp_10.png'', ''fbnp_1.png'', ''notes.txt'', ''fbnp_3.png'']
                            else []),
            path_exists = (\<lambda>p. p = ''/usr/share/fonts/truetype/dejavu/DejaVuSans-Bold.ttf'')\<rparr>"

text \<open>Directories for examples: one page; ten pages and a finished cover.\<close>

definition one_page :: env where
  "one_page = \<lparr>listdir = (\<lambda>d. [''fbnp_1.png'']),
               path_exists = (\<lambda>p. True)\<rparr>"

definition ten_pages :: env where
  "ten_pages = \<lparr>listdir = (\<lambda>d. [''fbnp_3.png'', ''fbnp_1.png'', ''fbnp_2.png'', ''fbnp_10.png'',
                                   ''fbnp_4.png'', ''fbnp_5.png'', ''fbnp_cover.png'', ''fbnp_6.png'',
                                   ''fbnp_7.png'', ''fbnp_8.png'', ''fbnp_9.png'']),
                path_exists = (\<lambda>p. True)\<rparr>"

text \<open>A title directory after the cover builder has run: two pages and the cover files.\<close>

definition cover_built :: env where
  "cover_built = \<lparr>listdir = (\<lambda>d. [''fbnp_2.png'', ''fbnp_cover.pdf'', ''fbnp_1.png'', ''fbnp_cover.png'']),
                 path_exists = (\<lambda>p. p = ''/usr/share/fonts/truetype/dejavu/DejaVuSans-Bold.ttf'')\<rparr>"



section \<open>Properties of the dimension calculator\<close>

lemma py_round_lower: "of_int (py_round x) - 1 / 2 \<le> x"
  unfolding py_round_def Let_def by (simp; linarith)

lemma py_round_upper: "x \<le> of_int (py_round x) + 1 / 2"
  unfolding py_round_def Let_def by (simp; linarith)

lemma py_round_of_int [simp]: "py_round (of_int n) = n"
  by (simp add: py_round_def)

lemma py_round_le_iff:
  "py_round x \<le> n \<longleftrightarrow> x < of_int n + 1 / 2 \<or> (x = of_int n + 1 / 2 \<and> even n)"
proof -
  define f where "f = \<lfloor>x\<rfloor>"
  have f1: "of_int f \<le> x" and f2: "x < of_int f + 1"
    unfolding f_def by linarith+
  show ?thesis
  proof (cases "x - of_int f < 1 / 2")
    case True
    then have r: "py_round x = f" by (simp add: py_round_def f_def)
    show ?thesis unfolding r using True f1 f2 by (auto; linarith)
  next
    case False
    show ?thesis
    proof (cases "1 / 2 < x - of_int f")
      case True
      then have r: "py_round x = f + 1" using False by (simp add: py_round_def f_def)
      show ?thesis unfolding r using True f1 f2 by (auto; linarith)
    next
      case F2: False
      with False have e: "x = of_int f + 1 / 2" by simp
      have r: "py_round x = (if even f then f else f + 1)"
        using False F2 by (simp add: py_round_def f_def Let_def)
      show ?thesis unfolding r using e by (auto; presburger)
    qed
  qed
qed

lemma py_round_ge_iff:
  "n \<le> py_round x \<longleftrightarrow> of_int n - 1 / 2 < x \<or> (x = of_int n - 1 / 2 \<and> even n)"
proof -
  have "n \<le> py_round x \<longleftrightarrow> \<not> py_round x \<le> n - 1" by linarith
  also have "\<dots> \<longleftrightarrow> \<not> (x < of_int (n - 1) + 1 / 2 \<or> (x = of_int (n - 1) + 1 / 2 \<and> even (n - 1)))"
    by (simp only: py_round_le_iff)
  also have "\<dots> \<longleftrightarrow> of_int n - 1 / 2 < x \<or> (x = of_int n - 1 / 2 \<and> even n)"
    by (auto simp: algebra_simps)
  finally show ?thesis .
qed

lemma py_round_mono: "x \<le> y \<Longrightarrow> py_round x \<le> py_round y"
  using py_round_le_iff [of x "py_round y"] py_round_le_iff [of y "py_round y"]
  by auto

lemma py_round_nonneg: "0 \<le> x \<Longrightarrow> 0 \<le> py_round x"
  by (simp add: py_round_ge_iff)





lemma PAPER_THICKNESS_pos: "PAPER_THICKNESS paper = Some t \<Longrightarrow> 0 < t"
  by (auto simp: PAPER_THICKNESS_def split: if_splits)

lemma compute_dimensions_Some:
  "PAPER_THICKNESS paper = Some t \<Longrightarrow>
   compute_dimensions tw th pages paper =
     Inr (\<lparr>size_w = inches_to_px (BLEED_IN * 2 + tw * 2 + t * of_int pages),
            size_h = inches_to_px (BLEED_IN * 2 + th)\<rparr>,
          \<lparr>size_w = inches_to_px tw, size_h = inches_to_px th\<rparr>,
          inches_to_px (t * of_int pages))"
  by (simp add: compute_dimensions_def Let_def)

lemma compute_dimensions_None:
  "PAPER_THICKNESS paper = None \<Longrightarrow> compute_dimensions tw th pages paper = Inl KeyError"
  by (simp add: compute_dimensions_def Let_def)


subsection \<open>Total canvas width\<close>




subsection \<open>Spine width\<close>

text \<open>
  C9: for every valid paper type, the spine pixel width computed by
  \<^verbatim>\<open>compute_dimensions\<close> is non-negative for every page count \<open>\<ge> 0\<close> and is monotonically
  non-decreasing in the page count (whatever the trim sizes of the two calls).
\<close>

theorem spine_px_nonneg_and_monotone:
  assumes "paper \<in> dom PAPER_THICKNESS" and "0 \<le> p" and "p \<le> q"
  shows "\<exists>total1 trim1 spine1 total2 trim2 spine2.
           compute_dimensions tw1 th1 p paper = Inr (total1, trim1, spine1)
         \<and> compute_dimensions tw2 th2 q paper = Inr (total2, trim2, spine2)
         \<and> 0 \<le> spine1 \<and> spine1 \<le> spine2"
proof -
  from assms(1) obtain t where t: "PAPER_THICKNESS paper = Some t"
    by auto
  then have pos: "0 < t"
    by (rule PAPER_THICKNESS_pos)
  have "0 \<le> t * of_int p * of_int DPI"
    using pos assms(2) by (simp add: DPI_def)
  then have nonneg: "0 \<le> inches_to_px (t * of_int p)"
    unfolding inches_to_px_def by (rule py_round_nonneg)
  have "t * of_int p \<le> t * of_int q"
    using pos assms(3) by simp
  then have "t * of_int p * of_int DPI \<le> t * of_int q * of_int DPI"
    by (simp add: DPI_def)
  then have mono: "inches_to_px (t * of_int p) \<le> inches_to_px (t * of_int q)"
    unfolding inches_to_px_def by (rule py_round_mono)
  show ?thesis
    using nonneg mono by (simp add: compute_dimensions_Some [OF t])
qed

theorem spine_px_nonneg_and_monotone_witness:
  "''cream'' \<in> dom PAPER_THICKNESS \<and> (0 :: int) \<le> 30 \<and> (30 :: int) \<le> 79
   \<and> (\<exists>total1 trim1 spine1 total2 trim2 spine2.
         compute_dimensions (85 / 10) 11 30 ''cream'' = Inr (total1, trim1, spine1)
       \<and> compute_dimensions (85 / 10) 11 79 ''cream'' = Inr (total2, trim2, spine2)
       \<and> 0 \<le> spine1 \<and> spine1 \<le> spine2)"
proof -
  have h: "''cream'' \<in> dom PAPER_THICKNESS"
    by (simp add: PAPER_THICKNESS_def)
  have "(0 :: int) \<le> 30" and "(30 :: int) \<le> 79"
    by simp_all
  with h show ?thesis
    using spine_px_nonneg_and_monotone [of "''cream''" 30 79 "85 / 10" 11 "85 / 10" 11]
    by simp
qed

section \<open>Properties of the trim parsers\<close>

lemma dot_not_digit [simp]: "\<not> is_digit CHR ''.''"
  by (simp add: is_digit_def)

lemma x_not_digit [simp]: "\<not> is_digit CHR ''x''"
  by (simp add: is_digit_def)

lemma x_not_space [simp]: "\<not> is_space CHR ''x''"
  by (simp add: is_space_def)




lemma list_all_takeWhile: "list_all P (takeWhile P xs)"
  by (induction xs) auto














lemma list_all_re_end_cases: "re_end e \<longleftrightarrow> e = [] \<or> e = [CHR 0x0A]"
  by (simp add: re_end_def)





section \<open>Trim strings (C8)\<close>





















section \<open>Selection of interior images (C4)\<close>

lemma randbelow_less: "0 < n \<Longrightarrow> fst (randbelow G n g) < n"
  by (simp add: randbelow_def split: prod.splits)

lemma shuffle_from_mset:
  "i < length x \<Longrightarrow> mset (fst (shuffle_from G i x g)) = mset x"
proof (induction i arbitrary: x g)
  case 0
  then show ?case by simp
next
  case (Suc i)
  obtain j g' where r: "randbelow G (Suc i + 1) g = (j, g')"
    by (cases "randbelow G (Suc i + 1) g")
  have "j < Suc i + 1"
    using randbelow_less [where n = "Suc i + 1" and G = G and g = g] r by simp
  then have j: "j < length x" using Suc.prems by simp
  have sw: "mset (x[Suc i := x ! j, j := x ! Suc i]) = mset x"
    using mset_swap [OF j Suc.prems] .
  have "mset (fst (shuffle_from G i (x[Suc i := x ! j, j := x ! Suc i]) g'))
          = mset (x[Suc i := x ! j, j := x ! Suc i])"
    using Suc.prems by (intro Suc.IH) simp
  with sw r show ?case by simp
qed

lemma shuffle_mset: "mset (fst (shuffle G x g)) = mset x"
proof (cases x)
  case Nil
  then show ?thesis by (simp add: shuffle_def)
next
  case (Cons a as)
  then show ?thesis
    unfolding shuffle_def by (intro shuffle_from_mset) simp
qed

lemma shuffle_length: "length (fst (shuffle G x g)) = length x"
  using shuffle_mset [of G x g] by (metis size_mset)

lemma shuffle_set: "set (fst (shuffle G x g)) = set x"
  using shuffle_mset [of G x g] by (metis set_mset_mset)

lemma shuffle_distinct: "distinct (fst (shuffle G x g)) = distinct x"
  using shuffle_mset [of G x g] by (metis mset_eq_imp_distinct_iff)

lemma candidates_filter:
  "map snd (concat (map (\<lambda>p. case cover_index p of Some n \<Rightarrow> [(n, p)] | None \<Rightarrow> []) xs))
     = filter (\<lambda>p. cover_index p \<noteq> None) xs"
  by (induction xs) (auto split: option.splits)

lemma files_mset:
  "mset (map snd (sort_key fst
      (concat (map (\<lambda>p. case cover_index p of Some n \<Rightarrow> [(n, p)] | None \<Rightarrow> [])
                   (sort (filter glob_fbnp (listdir E d)))))))
     = mset (interior_candidates E d)"
proof -
  define cs where "cs = concat (map (\<lambda>p. case cover_index p of Some n \<Rightarrow> [(n, p)] | None \<Rightarrow> [])
                   (sort (filter glob_fbnp (listdir E d))))"
  have "mset (map snd (sort_key fst cs)) = image_mset snd (mset (sort_key fst cs))"
    by simp
  also have "\<dots> = image_mset snd (mset cs)"
    by simp
  also have "\<dots> = mset (map snd cs)"
    by simp
  also have "\<dots> = mset (filter (\<lambda>p. cover_index p \<noteq> None) (sort (filter glob_fbnp (listdir E d))))"
    unfolding cs_def by (simp only: candidates_filter)
  also have "\<dots> = mset (interior_candidates E d)"
    by (simp add: interior_candidates_def filter_filter_mset conj_commute)
  finally show ?thesis unfolding cs_def .
qed

lemma load_interior_images_unfold:
  "load_interior_images G E d max_images g =
     (let files = map snd (sort_key fst
            (concat (map (\<lambda>p. case cover_index p of Some n \<Rightarrow> [(n, p)] | None \<Rightarrow> [])
                         (sort (filter glob_fbnp (listdir E d))))))
      in if files = [] then Inl FileNotFoundError
         else Inr (take (nat (max 2 (min max_images (int (length files)))))
                     (fst (shuffle G (take (min 6 (length files)) files) g)),
                   snd (shuffle G (take (min 6 (length files)) files) g)))"
  by (simp add: load_interior_images_def Let_def split: prod.splits)

lemma load_interior_images_none:
  assumes "interior_candidates E d = []"
  shows "load_interior_images G E d max_images g = Inl FileNotFoundError"
proof -
  have "mset (map snd (sort_key fst
            (concat (map (\<lambda>p. case cover_index p of Some n \<Rightarrow> [(n, p)] | None \<Rightarrow> [])
                         (sort (filter glob_fbnp (listdir E d))))))) = {#}"
    unfolding files_mset using assms by simp
  then have "map snd (sort_key fst
            (concat (map (\<lambda>p. case cover_index p of Some n \<Rightarrow> [(n, p)] | None \<Rightarrow> [])
                         (sort (filter glob_fbnp (listdir E d)))))) = []"
    by (simp only: mset_zero_iff)
  then show ?thesis
    unfolding load_interior_images_unfold Let_def by simp
qed

lemma load_interior_images_some:
  assumes "interior_candidates E d \<noteq> []"
  shows "\<exists>files g'. load_interior_images G E d max_images g = Inr (files, g')
           \<and> set files \<subseteq> set (interior_candidates E d)
           \<and> int (length files)
               = min (max 2 (min max_images (int (length (interior_candidates E d)))))
                     (min 6 (int (length (interior_candidates E d))))
           \<and> (distinct (listdir E d) \<longrightarrow> distinct files)"
proof -
  define files where "files = map snd (sort_key fst
            (concat (map (\<lambda>p. case cover_index p of Some n \<Rightarrow> [(n, p)] | None \<Rightarrow> [])
                         (sort (filter glob_fbnp (listdir E d))))))"
  define hd6 where "hd6 = take (min 6 (length files)) files"
  define k where "k = max 2 (min max_images (int (length files)))"
  define res where "res = take (nat k) (fst (shuffle G hd6 g))"
  have m: "mset files = mset (interior_candidates E d)"
    unfolding files_def by (rule files_mset)
  have len: "length files = length (interior_candidates E d)"
    using m by (metis size_mset)
  have st: "set files = set (interior_candidates E d)"
    using m by (metis set_mset_mset)
  have ne: "files \<noteq> []"
    using assms len by auto
  have r: "load_interior_images G E d max_images g = Inr (res, snd (shuffle G hd6 g))"
    unfolding load_interior_images_unfold files_def [symmetric] Let_def
    using ne by (simp add: res_def k_def hd6_def)
  have "set res \<subseteq> set (fst (shuffle G hd6 g))"
    unfolding res_def by (rule set_take_subset)
  also have "\<dots> = set hd6" by (rule shuffle_set)
  also have "\<dots> \<subseteq> set files" unfolding hd6_def by (rule set_take_subset)
  finally have sub: "set res \<subseteq> set (interior_candidates E d)" using st by simp
  have "length res = min (nat k) (min 6 (length files))"
    by (simp add: res_def shuffle_length hd6_def min.commute)
  moreover have "2 \<le> k" by (simp add: k_def)
  ultimately have l: "int (length res) = min k (min 6 (int (length files)))"
    by arith
  have dis: "distinct res" if "distinct (listdir E d)"
  proof -
    have "distinct (interior_candidates E d)"
      using that by (simp add: interior_candidates_def)
    then have "distinct files"
      using m by (metis mset_eq_imp_distinct_iff)
    then have "distinct hd6" by (simp add: hd6_def)
    then have "distinct (fst (shuffle G hd6 g))" by (simp add: shuffle_distinct)
    then show ?thesis by (simp add: res_def)
  qed
  show ?thesis
    using r sub l dis unfolding k_def len by blast
qed

lemma strict_name_is_candidate:
  assumes "ds \<noteq> []" "list_all is_digit ds"
  shows "glob_fbnp (''fbnp_'' @ ds @ ''.png'') \<and> cover_index (''fbnp_'' @ ds @ ''.png'') = Some (digits_value ds)"
proof -
  have tk: "takeWhile is_digit (ds @ ''.png'') = ds" and dr: "dropWhile is_digit (ds @ ''.png'') = ''.png''"
    using assms(2) by (simp_all add: list_all_iff)
  have m: "match_fbnp (''fbnp_'' @ ds @ ''.png'') = Some (ds, [])"
    using assms(1) by (simp add: match_fbnp_def tk dr)
  have "cover_index (''fbnp_'' @ ds @ ''.png'') = Some (digits_value ds)"
    using m by (simp add: cover_index_def re_end_def)
  moreover have "glob_fbnp (''fbnp_'' @ ds @ ''.png'')"
    by (simp add: glob_fbnp_def suffix_def)
  ultimately show ?thesis by simp
qed

lemma re_search_Some:
  "re_search m s = Some r \<Longrightarrow> \<exists>pre suf. s = pre @ suf \<and> m suf = Some r"
proof (induction s)
  case Nil
  then show ?case by simp
next
  case (Cons c cs)
  show ?case
  proof (cases "m (c # cs)")
    case None
    with Cons obtain pre suf where "cs = pre @ suf" "m suf = Some r" by auto
    then have "c # cs = (c # pre) @ suf \<and> m suf = Some r" by simp
    then show ?thesis by blast
  next
    case (Some a)
    with Cons.prems have "c # cs = [] @ (c # cs) \<and> m (c # cs) = Some r" by simp
    then show ?thesis by blast
  qed
qed

lemma re_search_finds:
  "m suf \<noteq> None \<Longrightarrow> re_search m (pre @ suf) \<noteq> None"
proof (induction pre)
  case Nil
  then show ?case by (cases suf) auto
next
  case (Cons c cs)
  then show ?case by (auto split: option.splits)
qed

lemma match_fbnp_Some:
  assumes "match_fbnp s = Some (ds, rest)"
  shows "s = ''fbnp_'' @ ds @ ''.png'' @ rest \<and> ds \<noteq> [] \<and> list_all is_digit ds"
proof -
  from assms have p: "prefix ''fbnp_'' s"
    by (auto simp: match_fbnp_def split: if_splits)
  then obtain r where s: "s = ''fbnp_'' @ r" by (auto simp: prefix_def)
  from assms s have d: "ds = takeWhile is_digit r" "ds \<noteq> []"
    and p2: "prefix ''.png'' (dropWhile is_digit r)" and rest: "rest = drop 4 (dropWhile is_digit r)"
    by (auto simp: match_fbnp_def Let_def split: if_splits)
  from p2 obtain r3 where r3: "dropWhile is_digit r = ''.png'' @ r3" by (auto simp: prefix_def)
  have "r = ds @ ''.png'' @ r3"
    using takeWhile_dropWhile_id [of is_digit r] d(1) r3 by simp
  moreover have "rest = r3" using rest r3 by simp
  ultimately show ?thesis
    using s d list_all_takeWhile [of is_digit r] by simp
qed

lemma match_fbnp_complete:
  assumes "ds \<noteq> []" "list_all is_digit ds"
  shows "match_fbnp (''fbnp_'' @ ds @ ''.png'') = Some (ds, [])"
proof -
  have tk: "takeWhile is_digit (ds @ ''.png'') = ds" and dr: "dropWhile is_digit (ds @ ''.png'') = ''.png''"
    using assms(2) by (simp_all add: list_all_iff)
  show ?thesis using assms(1) by (simp add: match_fbnp_def tk dr)
qed

text \<open>
  The names that \<^verbatim>\<open>load_interior_images\<close> keeps: they start with \<^verbatim>\<open>fbnp_\<close> and end with
  \<^verbatim>\<open>fbnp_\<close>, digits and \<^verbatim>\<open>.png\<close>.
\<close>

lemma candidate_name_iff:
  "glob_fbnp p \<and> cover_index p \<noteq> None \<longleftrightarrow>
     prefix ''fbnp_'' p \<and>
     (\<exists>pre ds. ds \<noteq> [] \<and> list_all is_digit ds \<and> p = pre @ ''fbnp_'' @ ds @ ''.png'')"
proof
  assume h: "glob_fbnp p \<and> cover_index p \<noteq> None"
  then have g: "prefix ''fbnp_'' p" "suffix ''.png'' (drop 5 p)"
    by (simp_all add: glob_fbnp_def)
  from h obtain ds where "re_search (\<lambda>s. case match_fbnp s of
                          Some (d, rest) \<Rightarrow> if re_end rest then Some d else None
                        | None \<Rightarrow> None) p = Some ds"
    by (auto simp: cover_index_def)
  from re_search_Some [OF this] obtain pre suf where ps: "p = pre @ suf"
    and m: "(case match_fbnp suf of Some (d, rest) \<Rightarrow> if re_end rest then Some d else None
             | None \<Rightarrow> None) = Some ds"
    by blast
  from m obtain rest where m2: "match_fbnp suf = Some (ds, rest)" and e: "re_end rest"
    by (auto split: option.splits if_splits)
  from match_fbnp_Some [OF m2] have suf: "suf = ''fbnp_'' @ ds @ ''.png'' @ rest"
    and ds: "ds \<noteq> []" "list_all is_digit ds" by simp_all
  have "rest = []"
  proof (rule ccontr)
    assume "rest \<noteq> []"
    with e have "rest = [CHR 0x0A]" by (simp add: re_end_def)
    with ps suf have "last p = CHR 0x0A" by simp
    moreover from g(2) have "suffix ''.png'' p"
      using suffix_order.trans [OF _ suffix_drop] by blast
    then have "last p = CHR ''g''" by (auto simp: suffix_def)
    ultimately show False by simp
  qed
  with ps suf ds g(1) show "prefix ''fbnp_'' p \<and>
     (\<exists>pre ds. ds \<noteq> [] \<and> list_all is_digit ds \<and> p = pre @ ''fbnp_'' @ ds @ ''.png'')"
    by auto
next
  assume h: "prefix ''fbnp_'' p \<and>
     (\<exists>pre ds. ds \<noteq> [] \<and> list_all is_digit ds \<and> p = pre @ ''fbnp_'' @ ds @ ''.png'')"
  then obtain pre ds where ds: "ds \<noteq> []" "list_all is_digit ds"
    and p: "p = pre @ ''fbnp_'' @ ds @ ''.png''" by blast
  from h obtain r where r: "p = ''fbnp_'' @ r" by (auto simp: prefix_def)
  have "(\<lambda>s. case match_fbnp s of Some (d, rest) \<Rightarrow> if re_end rest then Some d else None
              | None \<Rightarrow> None) (''fbnp_'' @ ds @ ''.png'') \<noteq> None"
    using match_fbnp_complete [OF ds] by (simp add: re_end_def)
  then have c: "cover_index p \<noteq> None"
    unfolding cover_index_def p by (simp only: re_search_finds map_option_is_None not_False_eq_True)
  have "suffix ''.png'' r"
  proof -
    define q where "q = pre @ ''fbnp_'' @ ds"
    have pq: "p = q @ ''.png''" by (simp add: p q_def)
    have lq: "5 \<le> length q" by (simp add: q_def)
    have "r = drop 5 p" using r by simp
    also have "\<dots> = drop 5 q @ ''.png''" using lq by (simp add: pq)
    finally show ?thesis by (simp add: suffix_def)
  qed
  then have "glob_fbnp p" using r by (simp add: glob_fbnp_def)
  with c show "glob_fbnp p \<and> cover_index p \<noteq> None" by simp
qed

text \<open>
  C4, as stated: whenever a file matches, at least 2 files are selected. A directory that
  holds the single page \<^verbatim>\<open>fbnp_1.png\<close> yields that one file: \<^verbatim>\<open>head[:k]\<close> cannot be longer
  than \<^verbatim>\<open>head\<close>.
\<close>

theorem load_interior_images_single_counterexample:
  "load_interior_images lcg one_page ''/mnt/ai_data/ColoringBooks/Solo'' 4 0
     = Inr ([''fbnp_1.png''], 0)"
  by code_simp

text \<open>
  C4, amended: \<^verbatim>\<open>load_interior_images\<close> raises \<^verbatim>\<open>FileNotFoundError\<close> exactly when no entry
  of the directory has a name that starts with \<^verbatim>\<open>fbnp_\<close> and ends with \<^verbatim>\<open>fbnp_\<close>, digits
  and \<^verbatim>\<open>.png\<close> (so a name \<^verbatim>\<open>fbnp_<N>.png\<close> suffices). Otherwise, with \<open>n\<close> such entries, it
  returns \<open>min (max 2 (min max_images n)) (min 6 n)\<close> of them (without repetition when
  the listing has none): at most \<open>max 2 max_images\<close> and at most 6, at least 2 when
  \<open>n \<ge> 2\<close>, and the single file when \<open>n = 1\<close>. With 10 files and \<open>max_images = 4\<close> it
  returns 4; with \<open>max_images = 1\<close> it returns 2.
\<close>

theorem load_interior_images_selection:
  "(interior_candidates E d = [] \<longrightarrow>
      load_interior_images G E d max_images g = Inl FileNotFoundError)
 \<and> (interior_candidates E d \<noteq> [] \<longrightarrow>
      (\<exists>files g'. load_interior_images G E d max_images g = Inr (files, g')
         \<and> set files \<subseteq> set (interior_candidates E d)
         \<and> int (length files)
             = min (max 2 (min max_images (int (length (interior_candidates E d)))))
                   (min 6 (int (length (interior_candidates E d))))
         \<and> (distinct (listdir E d) \<longrightarrow> distinct files)))
 \<and> (p \<in> set (interior_candidates E d) \<longleftrightarrow>
      p \<in> set (listdir E d) \<and> prefix ''fbnp_'' p \<and>
      (\<exists>pre ds. ds \<noteq> [] \<and> list_all is_digit ds \<and> p = pre @ ''fbnp_'' @ ds @ ''.png''))"
proof -
  have "p \<in> set (interior_candidates E d) \<longleftrightarrow>
      p \<in> set (listdir E d) \<and> (glob_fbnp p \<and> cover_index p \<noteq> None)"
    by (simp add: interior_candidates_def)
  then have "p \<in> set (interior_candidates E d) \<longleftrightarrow>
      p \<in> set (listdir E d) \<and> prefix ''fbnp_'' p \<and>
      (\<exists>pre ds. ds \<noteq> [] \<and> list_all is_digit ds \<and> p = pre @ ''fbnp_'' @ ds @ ''.png'')"
    by (simp only: candidate_name_iff)
  then show ?thesis
    using load_interior_images_none [where E = E and d = d and G = G and max_images = max_images and g = g]
      load_interior_images_some [where E = E and d = d and G = G and max_images = max_images and g = g]
    by blast
qed

theorem load_interior_images_selection_witness:
  "interior_candidates ten_pages ''/mnt/ai_data/ColoringBooks/Ten'' \<noteq> []
 \<and> length (interior_candidates ten_pages ''/mnt/ai_data/ColoringBooks/Ten'') = 10
 \<and> distinct (listdir ten_pages ''/mnt/ai_data/ColoringBooks/Ten'')
 \<and> (\<exists>files g'. load_interior_images lcg ten_pages ''/mnt/ai_data/ColoringBooks/Ten'' 4 0 = Inr (files, g')
       \<and> set files \<subseteq> set (interior_candidates ten_pages ''/mnt/ai_data/ColoringBooks/Ten'')
       \<and> int (length files) = 4 \<and> distinct files)
 \<and> (\<exists>files g'. load_interior_images lcg ten_pages ''/mnt/ai_data/ColoringBooks/Ten'' 1 0 = Inr (files, g')
       \<and> int (length files) = 2)
 \<and> interior_candidates dinos ''/mnt/ai_data/ColoringBooks/Empty'' = []
 \<and> load_interior_images lcg dinos ''/mnt/ai_data/ColoringBooks/Empty'' 4 0 = Inl FileNotFoundError
 \<and> ''fbnp_10.png'' \<in> set (interior_candidates ten_pages ''/mnt/ai_data/ColoringBooks/Ten'')
 \<and> ''fbnp_cover.png'' \<notin> set (interior_candidates ten_pages ''/mnt/ai_data/ColoringBooks/Ten'')"
proof -
  let ?d = "''/mnt/ai_data/ColoringBooks/Ten''"
  have c: "interior_candidates ten_pages ?d
             = [''fbnp_3.png'', ''fbnp_1.png'', ''fbnp_2.png'', ''fbnp_10.png'', ''fbnp_4.png'',
                ''fbnp_5.png'', ''fbnp_6.png'', ''fbnp_7.png'', ''fbnp_8.png'', ''fbnp_9.png'']"
    by code_simp
  have l: "listdir ten_pages ?d = [''fbnp_3.png'', ''fbnp_1.png'', ''fbnp_2.png'', ''fbnp_10.png'',
                ''fbnp_4.png'', ''fbnp_5.png'', ''fbnp_cover.png'', ''fbnp_6.png'',
                ''fbnp_7.png'', ''fbnp_8.png'', ''fbnp_9.png'']"
    by (simp add: ten_pages_def)
  have dl: "distinct (listdir ten_pages ?d)"
    unfolding l by simp
  have e: "interior_candidates dinos ''/mnt/ai_data/ColoringBooks/Empty'' = []"
    by code_simp
  have n: "interior_candidates ten_pages ?d \<noteq> []" "length (interior_candidates ten_pages ?d) = 10"
    unfolding c by simp_all
  have m: "''fbnp_10.png'' \<in> set (interior_candidates ten_pages ?d)"
    "''fbnp_cover.png'' \<notin> set (interior_candidates ten_pages ?d)"
    unfolding c by simp_all
  from load_interior_images_selection [where E = ten_pages and d = ?d and G = lcg
      and max_images = 4 and g = 0] n dl
  have 4: "\<exists>files g'. load_interior_images lcg ten_pages ?d 4 0 = Inr (files, g')
       \<and> set files \<subseteq> set (interior_candidates ten_pages ?d)
       \<and> int (length files) = 4 \<and> distinct files"
    by simp
  from load_interior_images_selection [where E = ten_pages and d = ?d and G = lcg
      and max_images = 1 and g = 0] n dl
  have "\<exists>files g'. load_interior_images lcg ten_pages ?d 1 0 = Inr (files, g')
       \<and> set files \<subseteq> set (interior_candidates ten_pages ?d)
       \<and> int (length files) = 2 \<and> distinct files"
    by simp
  then have 1: "\<exists>files g'. load_interior_images lcg ten_pages ?d 1 0 = Inr (files, g')
       \<and> int (length files) = 2"
    by blast
  from load_interior_images_selection [where E = dinos and d = "''/mnt/ai_data/ColoringBooks/Empty''"
      and G = lcg and max_images = 4 and g = 0] e
  have 0: "load_interior_images lcg dinos ''/mnt/ai_data/ColoringBooks/Empty'' 4 0 = Inl FileNotFoundError"
    by simp
  show ?thesis
    using n dl 4 1 e 0 m by simp
qed

section \<open>The cover build\<close>

lemma randbelow_less_width: "0 < n \<Longrightarrow> fst (randbelow G n g) < n"
  by (simp add: randbelow_def split: prod.splits)

lemma randint_ok:
  assumes "a \<le> b"
  shows "\<exists>r g'. randint G a b g = Inr (r, g') \<and> a \<le> r \<and> r \<le> b"
proof -
  obtain j g' where r: "randbelow G (nat (b + 1 - a)) g = (j, g')"
    by (cases "randbelow G (nat (b + 1 - a)) g")
  have "j < nat (b + 1 - a)"
    using randbelow_less_width [where n = "nat (b + 1 - a)" and G = G and g = g] r assms by simp
  then have "a + int j \<le> b" by linarith
  then show ?thesis
    using assms r by (simp add: randint_def Let_def)
qed

lemma jitter_range: "(0 :: int) \<le> c \<Longrightarrow> (- c) div 10 \<le> c div 10"
  by (rule zdiv_mono1) simp_all

lemma boxes_loop_ok:
  assumes "0 \<le> cw" "0 \<le> ch"
  shows "\<exists>bs g'. boxes_loop G x0 bl cw ch cells boxes g = Inr (bs, g')
           \<and> length bs = length boxes + length cells"
proof (induction cells arbitrary: boxes g)
  case Nil
  then show ?case by simp
next
  case (Cons rc cells)
  obtain r c where rc: "rc = (r, c)" by (cases rc)
  from randint_ok [OF jitter_range [OF assms(1)], where G = G and g = g]
  obtain jx g1 where 1: "randint G ((- cw) div 10) (cw div 10) g = Inr (jx, g1)" by blast
  from randint_ok [OF jitter_range [OF assms(2)], where G = G and g = g1]
  obtain jy g2 where 2: "randint G ((- ch) div 10) (ch div 10) g1 = Inr (jy, g2)" by blast
  from Cons.IH [where g = g2 and boxes = "boxes @ [(x0 + int c * cw + jx, bl + int r * ch + jy,
      x0 + int c * cw + jx + py_trunc (of_int cw * (8 / 10)),
      bl + int r * ch + jy + py_trunc (of_int ch * (8 / 10)))]"]
  show ?case
    by (simp add: rc 1 2 Let_def)
qed

lemma cells6: "length [(r, c). r \<leftarrow> [0..<(2::nat)], c \<leftarrow> [0..<(3::nat)]] = 6"
  by code_simp

lemma random_boxes_ok:
  assumes "panel_x0 \<le> panel_x1" "0 \<le> total_h"
  shows "\<exists>bs g'. random_boxes G total_h bleed_px panel_x0 panel_x1 g = Inr (bs, g')
           \<and> length bs = 6"
proof -
  have cw: "0 \<le> (panel_x1 - panel_x0) div 3" and ch: "0 \<le> total_h div 2"
    using assms by simp_all
  from boxes_loop_ok [OF cw ch, where G = G and ?x0.0 = panel_x0 and bl = bleed_px
      and cells = "[(r, c). r \<leftarrow> [0..<(2::nat)], c \<leftarrow> [0..<(3::nat)]]" and boxes = "[]" and g = g]
  obtain bs g' where b: "boxes_loop G panel_x0 bleed_px ((panel_x1 - panel_x0) div 3) (total_h div 2)
       [(r, c). r \<leftarrow> [0..<(2::nat)], c \<leftarrow> [0..<(3::nat)]] [] g = Inr (bs, g')"
    and l: "length bs = 6"
    using cells6 by auto
  obtain bs' g'' where s: "shuffle G bs g' = (bs', g'')" by (cases "shuffle G bs g'")
  have "length bs' = 6"
    using shuffle_length [of G bs g'] s l by simp
  then show ?thesis
    using b s unfolding random_boxes_def Let_def by simp
qed

lemma spine_draw [simp]:
  "list_ex is_spine_text (canvas_ops (draw op c))
     = (list_ex is_spine_text (canvas_ops c) \<or> is_spine_text op)"
  by (simp add: draw_def list_ex_iff) blast

lemma spine_convert [simp]:
  "canvas_ops (convert m c) = canvas_ops c"
  by (simp add: convert_def)

lemma spine_new_canvas [simp]: "canvas_ops (new_canvas m sz) = []"
  by (simp add: new_canvas_def)







lemma recolor_fails:
  "''putchannel'' \<notin> set (image_attrs lib) \<Longrightarrow> recolor lib img = Inl AttributeError"
  by (simp add: recolor_def)


lemma place_sheets_no_putchannel:
  assumes "''putchannel'' \<notin> set (image_attrs lib)" "fb \<noteq> []"
  shows "place_sheets lib G 0 (p # ps) fb bb base all_boxes g = Inl AttributeError"
  using assms by (simp add: Let_def recolor_fails split: prod.splits)

lemma inches_to_px_nonneg: "0 \<le> x \<Longrightarrow> 0 \<le> inches_to_px x"
  unfolding inches_to_px_def by (rule py_round_nonneg) (simp add: DPI_def)

lemma load_interior_images_result:
  assumes "load_interior_images G E d max_images g = Inr (files, g')"
  shows "files \<noteq> [] \<and> length files \<le> 6"
proof -
  have ne: "interior_candidates E d \<noteq> []"
    using assms load_interior_images_none [where E = E and d = d and G = G
        and max_images = max_images and g = g] by auto
  from load_interior_images_some [OF ne, where G = G and max_images = max_images and g = g] assms
  have l: "int (length files)
               = min (max 2 (min max_images (int (length (interior_candidates E d)))))
                     (min 6 (int (length (interior_candidates E d))))"
    by auto
  have "0 < length (interior_candidates E d)" using ne by simp
  with l have "0 < int (length files) \<and> int (length files) \<le> 6" by linarith
  then show ?thesis by auto
qed


lemma build_cover_no_putchannel:
  assumes lib: "''putchannel'' \<notin> set (image_attrs lib)"
    and paper: "PAPER_THICKNESS paper = Some t"
    and trim: "0 \<le> fst trim" "0 \<le> snd trim"
    and files: "interior_candidates E (''/mnt/ai_data/ColoringBooks/'' @ safe_title) \<noteq> []"
  shows "build_cover lib G E safe_title book_title description pages paper trim
           max_images spine_title bg seed g0 = Inl AttributeError"
proof -
  let ?g = "case seed of None \<Rightarrow> g0 | Some s \<Rightarrow> prng_seed G s"
  let ?d = "''/mnt/ai_data/ColoringBooks/'' @ safe_title"
  let ?tw = "inches_to_px (fst trim)"
  let ?th = "inches_to_px (BLEED_IN * 2 + snd trim)"
  let ?sp = "inches_to_px (t * of_int pages)"
  let ?b = "inches_to_px BLEED_IN"
  have cd: "compute_dimensions (fst trim) (snd trim) pages paper =
     Inr (\<lparr>size_w = inches_to_px (BLEED_IN * 2 + fst trim * 2 + t * of_int pages), size_h = ?th\<rparr>,
          \<lparr>size_w = ?tw, size_h = inches_to_px (snd trim)\<rparr>, ?sp)"
    by (rule compute_dimensions_Some [OF paper])
  have tw: "0 \<le> ?tw" using trim(1) by (rule inches_to_px_nonneg)
  have th: "0 \<le> ?th"
    using trim(2) by (intro inches_to_px_nonneg) (simp add: BLEED_IN_def)
  from load_interior_images_some [OF files, where G = G and max_images = max_images and g = ?g]
  obtain fs g1 where ld: "load_interior_images G E ?d max_images ?g = Inr (fs, g1)" by blast
  from load_interior_images_result [OF ld] obtain p ps where fs: "fs = p # ps"
    by (cases fs) auto
  from random_boxes_ok [where G = G and total_h = ?th and bleed_px = ?b
      and ?panel_x0.0 = "0 + ?b + ?tw + ?sp" and ?panel_x1.0 = "0 + ?b + ?tw + ?sp + ?tw" and g = g1] tw th
  obtain fbx g2 where rf: "random_boxes G ?th ?b (0 + ?b + ?tw + ?sp) (0 + ?b + ?tw + ?sp + ?tw) g1
      = Inr (fbx, g2)" and lf: "length fbx = 6" by auto
  from random_boxes_ok [where G = G and total_h = ?th and bleed_px = ?b
      and ?panel_x0.0 = "0 + ?b" and ?panel_x1.0 = "0 + ?b + ?tw" and g = g2] tw th
  obtain bbx g3 where rb: "random_boxes G ?th ?b (0 + ?b) (0 + ?b + ?tw) g2 = Inr (bbx, g3)"
    by auto
  let ?base0 = "fill_background bg (inches_to_px (BLEED_IN * 2 + fst trim * 2 + t * of_int pages), ?th)
         (new_canvas ''RGBA'' (inches_to_px (BLEED_IN * 2 + fst trim * 2 + t * of_int pages), ?th))"
  have ne: "fbx \<noteq> []" using lf by auto
  have ps: "place_sheets lib G 0 fs fbx bbx ?base0 [] g3 = Inl AttributeError"
    unfolding fs by (rule place_sheets_no_putchannel [OF lib ne])
  show ?thesis
    unfolding build_cover_def Let_def cd
    using ld rf rb ps by simp
qed

lemma dinos_candidates:
  "interior_candidates dinos ''/mnt/ai_data/ColoringBooks/Cute_Dinosaurs''
     = [''fbnp_2.png'', ''fbnp_10.png'', ''fbnp_1.png'', ''fbnp_3.png'']"
  by code_simp


lemma white_paper: "PAPER_THICKNESS ''white'' = Some (2252 / 1000000)"
  by (simp add: PAPER_THICKNESS_def)

lemma Pillow_no_putchannel: "''putchannel'' \<notin> set (image_attrs Pillow)"
  by (simp add: Pillow_def)


text \<open>The angle of \<^verbatim>\<open>random.uniform(-15, 15)\<close>.\<close>

lemma py_random_range: "0 \<le> fst (py_random G g) \<and> fst (py_random G g) < 1"
proof -
  obtain r g' where r: "prng_random G g = (r, g')" by (cases "prng_random G g")
  have "0 \<le> r - of_int \<lfloor>r\<rfloor> \<and> r - of_int \<lfloor>r\<rfloor> < 1" by linarith
  then show ?thesis by (simp add: py_random_def r)
qed

lemma uniform_angle_range:
  "- 15 \<le> fst (uniform G (- 15) 15 g) \<and> fst (uniform G (- 15) 15 g) < 15"
proof -
  obtain r g' where r: "py_random G g = (r, g')" by (cases "py_random G g")
  have "0 \<le> r \<and> r < 1"
    using py_random_range [of G g] by (simp add: r)
  moreover have "fst (uniform G (- 15) 15 g) = - 15 + 30 * r"
    by (simp add: uniform_def r)
  ultimately show ?thesis by simp
qed

text \<open>
  C1: every selected image is recoloured as black line art on a transparent background,
  matted, rotated and composited. The code calls \<^verbatim>\<open>art.putchannel\<close> for the recolouring, a
  method that Pillow's images do not have: with Pillow the build of the documented
  example raises \<^verbatim>\<open>AttributeError\<close> at the first image, after the boxes and the first angle
  have been drawn, and no sheet is composited (\<open>build_cover_no_putchannel\<close> for every
  build that reaches the loop).
\<close>

theorem cover_build_recolor_fails:
  "build_cover Pillow lcg dinos ''Cute_Dinosaurs'' ''Cute Dinosaurs Coloring Book for Kids''
     ''Includes 30 fun illustrations.'' 30 ''white'' (85 / 10, 11) 4
     (Some ''Cute Dinosaurs Coloring Book'') ''gradient:pastel:1'' (Some 42) 0
     = Inl AttributeError"
  by (rule build_cover_no_putchannel [OF Pillow_no_putchannel white_paper])
     (simp_all add: dinos_candidates)

text \<open>
  The build sorts the directory listing before it selects: the order in which the
  operating system lists the entries does not matter.
\<close>

lemma sort_mset_cong: "mset xs = mset ys \<Longrightarrow> sort xs = sort ys"
  by (rule properties_for_sort) simp_all

lemma load_interior_images_listing:
  assumes "mset (listdir E d) = mset (listdir E' d)"
  shows "load_interior_images G E d max_images g = load_interior_images G E' d max_images g"
proof -
  have "mset (filter glob_fbnp (listdir E d)) = mset (filter glob_fbnp (listdir E' d))"
    using assms by simp
  then have "sort (filter glob_fbnp (listdir E d)) = sort (filter glob_fbnp (listdir E' d))"
    by (rule sort_mset_cong)
  then show ?thesis
    by (simp add: load_interior_images_def)
qed

lemma build_cover_listing:
  assumes "mset (listdir E (''/mnt/ai_data/ColoringBooks/'' @ safe_title))
             = mset (listdir E' (''/mnt/ai_data/ColoringBooks/'' @ safe_title))"
    and "path_exists E = path_exists E'"
  shows "build_cover lib G E safe_title book_title description pages paper trim max_images
           spine_title bg seed g0
       = build_cover lib G E' safe_title book_title description pages paper trim max_images
           spine_title bg seed g0"
proof -
  have L: "\<And>g. load_interior_images G E (''/mnt/ai_data/ColoringBooks/'' @ safe_title) max_images g
     = load_interior_images G E' (''/mnt/ai_data/ColoringBooks/'' @ safe_title) max_images g"
    by (rule load_interior_images_listing [OF assms(1)])
  have D: "\<And>base spine_px total_h bleed_px left_x0 left_x1.
     draw_texts E base book_title description pages spine_title spine_px total_h bleed_px
        left_x0 left_x1
     = draw_texts E' base book_title description pages spine_title spine_px total_h bleed_px
        left_x0 left_x1"
    by (simp only: draw_texts_def pick_first_existing_font_def assms(2))
  show ?thesis
    by (simp only: build_cover_def Let_def L D)
qed




text \<open>The three branches of the background, lines 261--276.\<close>

lemma fill_background_gradient:
  "prefix ''gradient:pastel'' bg \<Longrightarrow> fill_background bg sz base = convert ''RGBA'' base"
  by (simp add: fill_background_def Let_def split: prod.splits)

lemma fill_background_hex:
  "\<not> prefix ''gradient:pastel'' bg \<Longrightarrow> match_hex_color bg \<Longrightarrow>
     fill_background bg sz base
       = draw (Rectangle (0, 0) sz (Named ((if prefix ''#'' bg then bg else ''#'' @ bg) @ ''ff''))) base"
  by (simp add: fill_background_def Let_def)

lemma fill_background_default:
  "\<not> prefix ''gradient:pastel'' bg \<Longrightarrow> \<not> match_hex_color bg \<Longrightarrow>
     fill_background bg sz base = draw (Rectangle (0, 0) sz (Named ''#E0F2FEff'')) base"
  by (simp add: fill_background_def Let_def)

lemma palette_index_range: "0 \<le> palette_index variant \<and> palette_index variant \<le> 4"
  by (simp add: palette_index_def PASTEL_PALETTES_def split: option.splits)

lemma palette_index_default: "py_int variant = None \<Longrightarrow> palette_index variant = 0"
  by (simp add: palette_index_def)

lemma convert_new_canvas: "convert m (new_canvas m sz) = new_canvas m sz"
  by (simp add: convert_def new_canvas_def)

text \<open>
  C2: a background \<^verbatim>\<open>gradient:pastel:<index>\<close> fills the canvas with the palette's vertical
  gradient. In the code the gradient is painted on \<^verbatim>\<open>base.convert("RGB")\<close>, a copy that is
  dropped; the canvas of the default background \<^verbatim>\<open>gradient:pastel:1\<close> is the white canvas
  it was created as, with no drawing call, while the dropped copy holds the two pastes.
  The solid colour and the default fill are drawn on the canvas itself
  (\<open>fill_background_hex\<close>, \<open>fill_background_default\<close>).
\<close>

theorem gradient_is_painted_on_a_copy:
  "fill_background ''gradient:pastel:1'' (5195, 3375) (new_canvas ''RGBA'' (5195, 3375))
     = new_canvas ''RGBA'' (5195, 3375)
 \<and> canvas_ops (new_canvas ''RGBA'' (5195, 3375)) = []
 \<and> canvas_ops (draw_gradient (convert ''RGB'' (new_canvas ''RGBA'' (5195, 3375))) ''#FDE68A'' ''#A7F3D0'')
     = [Paste (Named ''#FDE68A''), PasteMasked (Named ''#A7F3D0'') 3375]"
proof -
  have "prefix ''gradient:pastel'' ''gradient:pastel:1''"
    by simp
  then have "fill_background ''gradient:pastel:1'' (5195, 3375) (new_canvas ''RGBA'' (5195, 3375))
     = new_canvas ''RGBA'' (5195, 3375)"
    by (simp only: fill_background_gradient convert_new_canvas)
  then show ?thesis
    by (simp add: draw_gradient_def draw_def convert_def new_canvas_def)
qed

text \<open>
  C10: the palette index is always in \<open>[0, 4]\<close> and 0 when the variant is no integer
  (\<open>palette_index_range\<close>, \<open>palette_index_default\<close>), and a background that is neither a
  gradient nor a six-digit hexadecimal colour gets the default fill. The last part
  fails for six hexadecimal digits followed by a line feed: \<^verbatim>\<open>$\<close> matches before the line
  feed, so the solid-colour branch is taken with the colour \<^verbatim>\<open>"#aabbcc\nff"\<close>, not the
  default fill.
\<close>

theorem hex_color_with_line_feed_is_not_default:
  "\<not> prefix ''gradient:pastel'' (''aabbcc'' @ [CHR 0x0A])
 \<and> fill_background (''aabbcc'' @ [CHR 0x0A]) (5195, 3375) (new_canvas ''RGBA'' (5195, 3375))
     = draw (Rectangle (0, 0) (5195, 3375) (Named (''#aabbcc'' @ [CHR 0x0A] @ ''ff'')))
         (new_canvas ''RGBA'' (5195, 3375))
 \<and> fill_background (''aabbcc'' @ [CHR 0x0A]) (5195, 3375) (new_canvas ''RGBA'' (5195, 3375))
     \<noteq> draw (Rectangle (0, 0) (5195, 3375) (Named ''#E0F2FEff'')) (new_canvas ''RGBA'' (5195, 3375))"
proof -
  have p: "\<not> prefix ''gradient:pastel'' (''aabbcc'' @ [CHR 0x0A])"
    by simp
  have m: "match_hex_color (''aabbcc'' @ [CHR 0x0A])"
    by code_simp
  have h: "\<not> prefix ''#'' (''aabbcc'' @ [CHR 0x0A])"
    by simp
  have e: "fill_background (''aabbcc'' @ [CHR 0x0A]) (5195, 3375) (new_canvas ''RGBA'' (5195, 3375))
     = draw (Rectangle (0, 0) (5195, 3375)
               (Named ((if prefix ''#'' (''aabbcc'' @ [CHR 0x0A]) then ''aabbcc'' @ [CHR 0x0A]
                        else ''#'' @ ''aabbcc'' @ [CHR 0x0A]) @ ''ff'')))
         (new_canvas ''RGBA'' (5195, 3375))"
    by (rule fill_background_hex [OF p m])
  show ?thesis
    using p e h by (simp add: draw_def new_canvas_def)
qed

text \<open>
  What the interior builder does when every name that passes the glob carries a number:
  the two front-matter pages, then one page per file in ascending order of the number.
\<close>

lemma add_front_matter_ok:
  assumes "find (path_exists E) DEFAULT_FONTS \<noteq> None"
  shows "add_front_matter pages E w h dpi
     = Inr (pages @ [BelongsTo (new_blank_page w h dpi)] @ [Copyright (new_blank_page w h dpi)])"
proof -
  from assms obtain f where f: "find (path_exists E) DEFAULT_FONTS = Some f" by auto
  show ?thesis
    by (simp add: add_front_matter_def interior_pick_first_existing_font_def f)
qed

lemma add_coloring_pages_ok:
  assumes idx: "\<not> list_ex (\<lambda>p. interior_index p = None) (filter glob_fbnp (listdir E d))"
    and ne: "filter glob_fbnp (listdir E d) \<noteq> []"
  shows "add_coloring_pages pages E d w h dpi margin_in
     = Inr (pages @ map (Coloring (new_blank_page w h dpi))
              (sort_key (\<lambda>p. case interior_index p of Some n \<Rightarrow> n | None \<Rightarrow> 0)
                 (filter glob_fbnp (listdir E d))))"
proof -
  let ?key = "\<lambda>p. case interior_index p of Some n \<Rightarrow> n | None \<Rightarrow> 0"
  let ?g = "filter glob_fbnp (listdir E d)"
  have "sort_key ?key ?g \<noteq> []"
  proof
    assume "sort_key ?key ?g = []"
    then have "length (sort_key ?key ?g) = 0" by (simp only: list.size)
    then have "length ?g = 0" by (simp only: length_sort)
    with ne show False by simp
  qed
  then show ?thesis
    using idx by (simp only: add_coloring_pages_def Let_def if_False)
qed

lemma build_interior_pages:
  assumes font: "find (path_exists E) DEFAULT_FONTS \<noteq> None"
    and idx: "\<not> list_ex (\<lambda>p. interior_index p = None)
                (filter glob_fbnp (listdir E (''/mnt/ai_data/ColoringBooks/'' @ safe_title)))"
    and ne: "filter glob_fbnp (listdir E (''/mnt/ai_data/ColoringBooks/'' @ safe_title)) \<noteq> []"
  shows "\<exists>doc files. build_interior E safe_title trim dpi margin_in no_bleed = Inr doc
     \<and> interior_pages doc
         = [BelongsTo (new_blank_page (fst trim) (snd trim) dpi),
            Copyright (new_blank_page (fst trim) (snd trim) dpi)]
           @ map (Coloring (new_blank_page (fst trim) (snd trim) dpi)) files
     \<and> mset files = mset (filter glob_fbnp (listdir E (''/mnt/ai_data/ColoringBooks/'' @ safe_title)))
     \<and> sorted (map (\<lambda>p. case interior_index p of Some n \<Rightarrow> n | None \<Rightarrow> 0) files)
     \<and> length (interior_pages doc)
         = 2 + length (filter glob_fbnp (listdir E (''/mnt/ai_data/ColoringBooks/'' @ safe_title)))"
proof -
  define d where "d = ''/mnt/ai_data/ColoringBooks/'' @ safe_title"
  define key where "key = (\<lambda>p. case interior_index p of Some n \<Rightarrow> n | None \<Rightarrow> (0::nat))"
  define files where "files = sort_key key (filter glob_fbnp (listdir E d))"
  define sz where "sz = new_blank_page (fst trim) (snd trim) dpi"
  define doc where "doc = \<lparr>interior_pdf = d @ ''/fbnp_interior.pdf'',
            interior_pages = BelongsTo sz # Copyright sz # map (Coloring sz) files\<rparr>"
  have fm: "add_front_matter [] E (fst trim) (snd trim) dpi = Inr [BelongsTo sz, Copyright sz]"
    using add_front_matter_ok [OF font, of "[]" "fst trim" "snd trim" dpi]
    by (simp add: sz_def)
  have cp: "add_coloring_pages [BelongsTo sz, Copyright sz] E d (fst trim) (snd trim) dpi margin_in
     = Inr (BelongsTo sz # Copyright sz # map (Coloring sz) files)"
    using add_coloring_pages_ok [of E d "[BelongsTo sz, Copyright sz]" "fst trim" "snd trim" dpi
        margin_in] idx ne
    by (simp add: sz_def files_def key_def d_def)
  have "build_interior E safe_title trim dpi margin_in no_bleed
     = (case add_front_matter [] E (fst trim) (snd trim) dpi of
           Inl e \<Rightarrow> Inl e
         | Inr pages \<Rightarrow>
             (case add_coloring_pages pages E d (fst trim) (snd trim) dpi margin_in of
                Inl e \<Rightarrow> Inl e
              | Inr pages \<Rightarrow>
                  (case pages of
                     [] \<Rightarrow> Inl IndexError
                   | first # rest \<Rightarrow>
                       Inr \<lparr>interior_pdf = d @ ''/fbnp_interior.pdf'',
                            interior_pages = first # rest\<rparr>)))"
    by (simp only: build_interior_def Let_def d_def)
  also have "\<dots> = Inr doc"
    by (simp only: fm cp sum.case list.case doc_def)
  finally have b: "build_interior E safe_title trim dpi margin_in no_bleed = Inr doc" .
  have p: "interior_pages doc = [BelongsTo sz, Copyright sz] @ map (Coloring sz) files"
    by (simp add: doc_def)
  have m: "mset files = mset (filter glob_fbnp (listdir E d))"
    by (simp add: files_def)
  have s: "sorted (map key files)"
    unfolding files_def by (rule sorted_sort_key)
  have l: "length (interior_pages doc) = 2 + length (filter glob_fbnp (listdir E d))"
    by (simp add: doc_def files_def)
  from b p m s l have "build_interior E safe_title trim dpi margin_in no_bleed = Inr doc
     \<and> interior_pages doc = [BelongsTo sz, Copyright sz] @ map (Coloring sz) files
     \<and> mset files = mset (filter glob_fbnp (listdir E d))
     \<and> sorted (map key files)
     \<and> length (interior_pages doc) = 2 + length (filter glob_fbnp (listdir E d))"
    by (intro conjI)
  then show ?thesis
    unfolding sz_def key_def d_def by (intro exI)
qed

text \<open>
  C6: the interior has the two front-matter pages and then one page per coloring image,
  in ascending order of the numeric suffix. Once the cover builder has written
  \<^verbatim>\<open>fbnp_cover.png\<close> into the directory, the glob of the interior builder picks it up, the
  sort key finds no number in it and raises \<^verbatim>\<open>AttributeError\<close>: no document is written.
  Where every name that passes the glob carries a number, the document is as described
  (\<open>build_interior_pages\<close>).
\<close>

theorem interior_build_fails_beside_cover:
  "build_interior cover_built ''Cute_Dinosaurs'' (85 / 10, 11) 300 (1 / 2) True
     = Inl AttributeError"
  by code_simp

end
